theory Spec2Isabelle
  imports Complex_Main
begin

section \<open>Numbers and strings of the host language\<close>

text \<open>
  A value of the TypeScript type \<open>number\<close> is modelled as a real, one of the two
  infinities or \<open>NaN\<close>. Overflow is part of the model: the result of an operation whose
  exact value reaches the overflow threshold of binary64 is an infinity (\<open>fin\<close>).
  Rounding and underflow are not: below the threshold the operations are exact. Zero
  has no sign.
\<close>

datatype number = NaN | Num real | PInf | NInf

text \<open>
  The overflow threshold of binary64 under rounding to nearest: half a unit in the last
  place above the largest finite value \<open>2 ^ 1024 - 2 ^ 971\<close>.
\<close>

definition overflow_threshold :: real where
  "overflow_threshold = 2 ^ 1024 - 2 ^ 970"

definition fin :: "real \<Rightarrow> number" where
  "fin x = (if overflow_threshold \<le> x then PInf
            else if x \<le> - overflow_threshold then NInf
            else Num x)"

fun isNaN :: "number \<Rightarrow> bool" where
  "isNaN NaN = True"
| "isNaN _ = False"

text \<open>The relational operators \<open><\<close> and \<open>>\<close>: false as soon as one side is \<open>NaN\<close>.\<close>

fun num_less :: "number \<Rightarrow> number \<Rightarrow> bool" where
  "num_less (Num x) (Num y) = (x < y)"
| "num_less NInf (Num y) = True"
| "num_less NInf PInf = True"
| "num_less (Num x) PInf = True"
| "num_less _ _ = False"

definition num_greater :: "number \<Rightarrow> number \<Rightarrow> bool" where
  "num_greater a b = num_less b a"

fun num_add :: "number \<Rightarrow> number \<Rightarrow> number" where
  "num_add (Num x) (Num y) = fin (x + y)"
| "num_add PInf (Num y) = PInf"
| "num_add (Num x) PInf = PInf"
| "num_add PInf PInf = PInf"
| "num_add NInf (Num y) = NInf"
| "num_add (Num x) NInf = NInf"
| "num_add NInf NInf = NInf"
| "num_add _ _ = NaN"

text \<open>Multiplication: an infinity times zero is \<open>NaN\<close>.\<close>

fun num_mul :: "number \<Rightarrow> number \<Rightarrow> number" where
  "num_mul (Num x) (Num y) = fin (x * y)"
| "num_mul PInf (Num y) = (if y = 0 then NaN else if 0 < y then PInf else NInf)"
| "num_mul (Num x) PInf = (if x = 0 then NaN else if 0 < x then PInf else NInf)"
| "num_mul NInf (Num y) = (if y = 0 then NaN else if 0 < y then NInf else PInf)"
| "num_mul (Num x) NInf = (if x = 0 then NaN else if 0 < x then NInf else PInf)"
| "num_mul PInf PInf = PInf"
| "num_mul NInf NInf = PInf"
| "num_mul PInf NInf = NInf"
| "num_mul NInf PInf = NInf"
| "num_mul _ _ = NaN"

text \<open>
  Division. Every divisor in the modelled code is a non-zero constant of a table or a
  counter that was tested to be positive, so the branches for a zero divisor are never
  taken; they are written for the positive zero.
\<close>

fun num_div :: "number \<Rightarrow> number \<Rightarrow> number" where
  "num_div (Num x) (Num y) =
     (if y = 0 then (if x = 0 then NaN else if 0 < x then PInf else NInf)
      else fin (x / y))"
| "num_div (Num x) PInf = Num 0"
| "num_div (Num x) NInf = Num 0"
| "num_div PInf (Num y) = (if 0 \<le> y then PInf else NInf)"
| "num_div NInf (Num y) = (if 0 \<le> y then NInf else PInf)"
| "num_div _ _ = NaN"

text \<open>
  \<open>Math.pow\<close>: an exponent 0 gives 1 whatever the base; a negative base has a finite
  value only for an integral exponent; base 0 with a negative exponent is an infinity.
  The exponents used by the code are the positive reals \<open>1 / count\<close>.
\<close>

fun math_pow :: "number \<Rightarrow> number \<Rightarrow> number" where
  "math_pow b NaN = NaN"
| "math_pow b (Num y) =
     (if y = 0 then Num 1
      else (case b of
              NaN \<Rightarrow> NaN
            | Num x \<Rightarrow>
                if 0 < x then fin (x powr y)
                else if x = 0 then (if 0 < y then Num 0 else PInf)
                else if of_int \<lfloor>y\<rfloor> = y then fin (x powi \<lfloor>y\<rfloor>)
                else NaN
            | PInf \<Rightarrow> if 0 < y then PInf else Num 0
            | NInf \<Rightarrow>
                if 0 < y then (if of_int \<lfloor>y\<rfloor> = y \<and> odd \<lfloor>y\<rfloor> then NInf else PInf)
                else Num 0))"
| "math_pow b PInf =
     (case b of
        NaN \<Rightarrow> NaN
      | Num x \<Rightarrow> if \<bar>x\<bar> = 1 then NaN else if 1 < \<bar>x\<bar> then PInf else Num 0
      | _ \<Rightarrow> PInf)"
| "math_pow b NInf =
     (case b of
        NaN \<Rightarrow> NaN
      | Num x \<Rightarrow> if \<bar>x\<bar> = 1 then NaN else if 1 < \<bar>x\<bar> then Num 0 else PInf
      | _ \<Rightarrow> Num 0)"

text \<open>Decimal rendering of a non-negative integer, as a template literal prints it.\<close>

definition digit_char :: "nat \<Rightarrow> char" where
  "digit_char d = ''0123456789'' ! (d mod 10)"

fun string_of_nat :: "nat \<Rightarrow> string" where
  "string_of_nat n =
     (if n < 10 then [digit_char n] else string_of_nat (n div 10) @ [digit_char (n mod 10)])"

declare string_of_nat.simps [simp del]

text \<open>\<open>Array.prototype.join\<close> on an array of strings.\<close>

fun join :: "string \<Rightarrow> string list \<Rightarrow> string" where
  "join sep [] = []"
| "join sep [x] = x"
| "join sep (x # y # ys) = x @ sep @ join sep (y # ys)"

text \<open>
  A JavaScript object with (non-numeric) string keys, in insertion order: an association
  list. Reading a key is \<open>map_of\<close>; inherited members of the prototype are not modelled.
  Assigning to a key replaces the value in place when the key exists and appends the
  pair otherwise.
\<close>

type_synonym ('k, 'v) obj = "('k \<times> 'v) list"

fun obj_set :: "'k \<Rightarrow> 'v \<Rightarrow> ('k, 'v) obj \<Rightarrow> ('k, 'v) obj" where
  "obj_set k v [] = [(k, v)]"
| "obj_set k v (p # ps) = (if fst p = k then (k, v) # ps else p # obj_set k v ps)"

section \<open>Data model\<close>

datatype qualityCategory = excellent | good | moderate | poor | unsuitable

record hmpiResults =
  hpi :: number
  pli :: number
  cf :: number
  qualityCategory :: qualityCategory

text \<open>
  The type \<open>WaterSample\<close> is imported by all components; its fields are read off the
  object literal of \<open>validateData\<close> and the \<open>hmpiResults\<close> member that
  \<open>performCalculations\<close> adds. The field \<open>id\<close> is named \<open>id_s\<close> here.
\<close>

record WaterSample =
  id_s :: string
  latitude :: number
  longitude :: number
  sampleDate :: string
  metals :: "(string, number) obj"
  hmpiResults :: "hmpiResults option"

section \<open>DataUpload: validateData\<close>

text \<open>
  A parsed row is an object from column names to strings; a column the row lacks reads
  as \<open>undefined\<close>.

  Two things come from outside the component and are parameters of the model:
  \<^item> \<open>parseFloat\<close>, the host's parser, of type \<open>string \<Rightarrow> number\<close>. A missing field
    reaches it as the string \<open>undefined\<close>, by the conversion of its argument to a string.
  \<^item> the clock: \<open>clock i\<close> is the text \<open>new Date().toISOString().split('T')[0]\<close>
    evaluates to when the row of index \<open>i\<close> is processed (the source reads the clock
    once for each row that needs it).
\<close>

type_synonym row = "string \<rightharpoonup> string"

definition toString_arg :: "string option \<Rightarrow> string" where
  "toString_arg v = (case v of None \<Rightarrow> ''undefined'' | Some s \<Rightarrow> s)"

definition requiredColumns :: "string list" where
  "requiredColumns = [''latitude'', ''longitude'', ''sampleDate'',
     ''As'', ''Cd'', ''Cr'', ''Cu'', ''Fe'', ''Mn'', ''Ni'', ''Pb'', ''Zn'']"

text \<open>The local constant \<open>metals\<close> of \<open>validateData\<close>.\<close>

definition metals_list :: "string list" where
  "metals_list = [''As'', ''Cd'', ''Cr'', ''Cu'', ''Fe'', ''Mn'', ''Ni'', ''Pb'', ''Zn'']"

text \<open>The inner loop \<open>metals.forEach\<close>, threading \<open>rowErrors\<close> and \<open>metalValues\<close>.\<close>

fun forEach_metal ::
  "(string \<Rightarrow> number) \<Rightarrow> row \<Rightarrow> nat \<Rightarrow> string list \<Rightarrow>
   string list \<times> (string, number) obj \<Rightarrow> string list \<times> (string, number) obj" where
  "forEach_metal parseFloat r index [] st = st"
| "forEach_metal parseFloat r index (metal # ms) st =
     (let (rowErrors, metalValues) = st;
          v = parseFloat (toString_arg (r metal))
      in forEach_metal parseFloat r index ms
           (if isNaN v \<or> num_less v (Num 0)
            then (rowErrors @ [''Invalid '' @ metal @ '' concentration at row ''
                                 @ string_of_nat (index + 1)], metalValues)
            else (rowErrors, obj_set metal v metalValues)))"

text \<open>
  The checks of one row, up to the test \<open>rowErrors.length === 0\<close>: the diagnostics of
  the row and the metal values collected.
\<close>

definition checkRow ::
  "(string \<Rightarrow> number) \<Rightarrow> nat \<Rightarrow> row \<Rightarrow> string list \<times> (string, number) obj" where
  "checkRow parseFloat index r =
     (let lat = parseFloat (toString_arg (r ''latitude''));
          lng = parseFloat (toString_arg (r ''longitude''));
          e0 = [];
          e1 = (if isNaN lat \<or> num_less lat (Num (- 90)) \<or> num_greater lat (Num 90)
                then e0 @ [''Invalid latitude at row '' @ string_of_nat (index + 1)] else e0);
          e2 = (if isNaN lng \<or> num_less lng (Num (- 180)) \<or> num_greater lng (Num 180)
                then e1 @ [''Invalid longitude at row '' @ string_of_nat (index + 1)] else e1)
      in forEach_metal parseFloat r index metals_list (e2, []))"

definition rowErrors :: "(string \<Rightarrow> number) \<Rightarrow> nat \<Rightarrow> row \<Rightarrow> string list" where
  "rowErrors parseFloat index r = fst (checkRow parseFloat index r)"

definition metalValues :: "(string \<Rightarrow> number) \<Rightarrow> nat \<Rightarrow> row \<Rightarrow> (string, number) obj" where
  "metalValues parseFloat index r = snd (checkRow parseFloat index r)"

text \<open>\<open>row.sampleDate || <today>\<close>: an absent or empty value is falsy.\<close>

definition sampleDate_or :: "string option \<Rightarrow> string \<Rightarrow> string" where
  "sampleDate_or v today =
     (case v of None \<Rightarrow> today | Some s \<Rightarrow> if s = [] then today else s)"

text \<open>The object literal pushed for an accepted row.\<close>

definition newSample ::
  "(string \<Rightarrow> number) \<Rightarrow> (nat \<Rightarrow> string) \<Rightarrow> nat \<Rightarrow> row \<Rightarrow> WaterSample" where
  "newSample parseFloat clock index r =
     \<lparr> id_s = ''sample_'' @ string_of_nat (index + 1),
       latitude = parseFloat (toString_arg (r ''latitude'')),
       longitude = parseFloat (toString_arg (r ''longitude'')),
       sampleDate = sampleDate_or (r ''sampleDate'') (clock index),
       metals = metalValues parseFloat index r,
       hmpiResults = None \<rparr>"

text \<open>The body of \<open>data.forEach\<close> on the accumulators \<open>errors\<close> and \<open>samples\<close>.\<close>

definition validateRow ::
  "(string \<Rightarrow> number) \<Rightarrow> (nat \<Rightarrow> string) \<Rightarrow> nat \<Rightarrow> row \<Rightarrow>
   string list \<times> WaterSample list \<Rightarrow> string list \<times> WaterSample list" where
  "validateRow parseFloat clock index r st =
     (let (errs, smps) = st
      in if length (rowErrors parseFloat index r) = 0
         then (errs, smps @ [newSample parseFloat clock index r])
         else (errs @ rowErrors parseFloat index r, smps))"

fun forEach_row ::
  "(string \<Rightarrow> number) \<Rightarrow> (nat \<Rightarrow> string) \<Rightarrow> nat \<Rightarrow> row list \<Rightarrow>
   string list \<times> WaterSample list \<Rightarrow> string list \<times> WaterSample list" where
  "forEach_row parseFloat clock index [] st = st"
| "forEach_row parseFloat clock index (r # rs) st =
     forEach_row parseFloat clock (Suc index) rs (validateRow parseFloat clock index r st)"

record validation =
  isValid :: bool
  errors :: "string list"
  samples :: "WaterSample list"

text \<open>The column check on the first row, and the diagnostic it pushes, if any.\<close>

definition missingColumns :: "row \<Rightarrow> string list" where
  "missingColumns firstRow = filter (\<lambda>col. firstRow col = None) requiredColumns"

definition headerErrors :: "row \<Rightarrow> string list" where
  "headerErrors firstRow =
     (if length (missingColumns firstRow) > 0
      then [''Missing required columns: '' @ join '', '' (missingColumns firstRow)]
      else [])"

definition validateData ::
  "(string \<Rightarrow> number) \<Rightarrow> (nat \<Rightarrow> string) \<Rightarrow> row list \<Rightarrow> validation" where
  "validateData parseFloat clock data =
     (case data of
        [] \<Rightarrow> \<lparr> isValid = False,
                errors = [''No data found in the uploaded file''],
                samples = [] \<rparr>
      | firstRow # _ \<Rightarrow>
          (let (errs, smps) = forEach_row parseFloat clock 0 data (headerErrors firstRow, [])
           in \<lparr> isValid = (length errs = 0), errors = errs, samples = smps \<rparr>))"

section \<open>CalculationEngine\<close>

definition WHO_STANDARDS :: "(string, real) obj" where
  "WHO_STANDARDS =
     [(''As'', 0.01), (''Cd'', 0.003), (''Cr'', 0.05), (''Cu'', 2.0), (''Fe'', 0.3),
      (''Mn'', 0.1), (''Ni'', 0.07), (''Pb'', 0.01), (''Zn'', 3.0)]"

definition METAL_WEIGHTS :: "(string, real) obj" where
  "METAL_WEIGHTS =
     [(''As'', 1.0), (''Cd'', 1.0), (''Cr'', 1.0), (''Cu'', 1.0), (''Fe'', 1.0),
      (''Mn'', 1.0), (''Ni'', 1.0), (''Pb'', 1.0), (''Zn'', 1.0)]"

text \<open>Truthiness of a table entry: present and not zero.\<close>

fun truthy :: "real option \<Rightarrow> bool" where
  "truthy None = False"
| "truthy (Some x) = (x \<noteq> 0)"

text \<open>The loop of \<open>calculateHPI\<close> on \<open>(weightedSum, totalWeight)\<close>.\<close>

fun hpi_loop :: "(string, number) obj \<Rightarrow> number \<times> number \<Rightarrow> number \<times> number" where
  "hpi_loop [] st = st"
| "hpi_loop ((metal, concentration) # es) (weightedSum, totalWeight) =
     (case (map_of WHO_STANDARDS metal, map_of METAL_WEIGHTS metal) of
        (Some standard, Some weight) \<Rightarrow>
          if standard \<noteq> 0 \<and> weight \<noteq> 0
          then (let subIndex = num_mul (num_div concentration (Num standard)) (Num 100)
                in hpi_loop es (num_add weightedSum (num_mul (Num weight) subIndex),
                                num_add totalWeight (Num weight)))
          else hpi_loop es (weightedSum, totalWeight)
      | _ \<Rightarrow> hpi_loop es (weightedSum, totalWeight))"

definition calculateHPI :: "(string, number) obj \<Rightarrow> number" where
  "calculateHPI ms =
     (let (weightedSum, totalWeight) = hpi_loop ms (Num 0, Num 0)
      in if num_greater totalWeight (Num 0) then num_div weightedSum totalWeight else Num 0)"

text \<open>The loop of \<open>calculatePLI\<close> on \<open>(product, count)\<close>.\<close>

fun pli_loop :: "(string, number) obj \<Rightarrow> number \<times> nat \<Rightarrow> number \<times> nat" where
  "pli_loop [] st = st"
| "pli_loop ((metal, concentration) # es) (product, count) =
     (if truthy (map_of WHO_STANDARDS metal)
      then (case map_of WHO_STANDARDS metal of
              Some standard \<Rightarrow>
                pli_loop es (num_mul product (num_div concentration (Num standard)), count + 1)
            | None \<Rightarrow> pli_loop es (product, count))
      else pli_loop es (product, count))"

definition calculatePLI :: "(string, number) obj \<Rightarrow> number" where
  "calculatePLI ms =
     (let (product, count) = pli_loop ms (Num 1, 0)
      in if count > 0 then math_pow product (num_div (Num 1) (Num (real count))) else Num 0)"

text \<open>The loop of \<open>calculateCF\<close> on \<open>(totalCF, count)\<close>.\<close>

fun cf_loop :: "(string, number) obj \<Rightarrow> number \<times> nat \<Rightarrow> number \<times> nat" where
  "cf_loop [] st = st"
| "cf_loop ((metal, concentration) # es) (totalCF, count) =
     (if truthy (map_of WHO_STANDARDS metal)
      then (case map_of WHO_STANDARDS metal of
              Some standard \<Rightarrow>
                cf_loop es (num_add totalCF (num_div concentration (Num standard)), count + 1)
            | None \<Rightarrow> cf_loop es (totalCF, count))
      else cf_loop es (totalCF, count))"

definition calculateCF :: "(string, number) obj \<Rightarrow> number" where
  "calculateCF ms =
     (let (totalCF, count) = cf_loop ms (Num 0, 0)
      in if count > 0 then num_div totalCF (Num (real count)) else Num 0)"

definition categorizeWaterQuality :: "number \<Rightarrow> number \<Rightarrow> qualityCategory" where
  "categorizeWaterQuality h p =
     (if num_less h (Num 25) \<and> num_less p (Num 1) then excellent
      else if num_less h (Num 50) \<and> num_less p (Num 2) then good
      else if num_less h (Num 75) \<and> num_less p (Num 3) then moderate
      else if num_less h (Num 100) \<and> num_less p (Num 5) then poor
      else unsuitable)"

text \<open>
  The state of the component: the selection of indices (its fields are \<open>hpi\<close>, \<open>pli\<close>
  and \<open>cf\<close> in the source), the busy flag and the progress shown.
\<close>

record selectedIndices =
  sel_hpi :: bool
  sel_pli :: bool
  sel_cf :: bool

record engine_state =
  selectedIndices :: selectedIndices
  isCalculating :: bool
  progress :: real

text \<open>
  \<open>performCalculations\<close>: the array \<open>calculatedSamples\<close> handed to
  \<open>onCalculationComplete\<close>. The timers, the progress bar and the toast do not reach it.
\<close>

definition calculateSample :: "engine_state \<Rightarrow> WaterSample \<Rightarrow> WaterSample" where
  "calculateSample st sample =
     (let h = (if sel_hpi (selectedIndices st) then calculateHPI (metals sample) else Num 0);
          p = (if sel_pli (selectedIndices st) then calculatePLI (metals sample) else Num 0);
          c = (if sel_cf (selectedIndices st) then calculateCF (metals sample) else Num 0);
          q = categorizeWaterQuality h p
      in sample\<lparr> hmpiResults := Some \<lparr> hpi = h, pli = p, cf = c, qualityCategory = q \<rparr> \<rparr>)"

definition performCalculations :: "engine_state \<Rightarrow> WaterSample list \<Rightarrow> WaterSample list" where
  "performCalculations st smps = map (calculateSample st) smps"

section \<open>ResultsVisualization: qualityDistribution\<close>

definition processedSamples :: "WaterSample list \<Rightarrow> WaterSample list" where
  "processedSamples smps = filter (\<lambda>s. hmpiResults s \<noteq> None) smps"

text \<open>
  The reducer \<open>acc[category] = (acc[category] || 0) + 1\<close>. It runs on processed samples
  only, so the branch without results (a TypeError in the source) is never taken.
\<close>

definition count_category ::
  "(qualityCategory, nat) obj \<Rightarrow> WaterSample \<Rightarrow> (qualityCategory, nat) obj" where
  "count_category acc sample =
     (case hmpiResults sample of
        None \<Rightarrow> acc
      | Some r \<Rightarrow>
          obj_set (qualityCategory r)
            ((case map_of acc (qualityCategory r) of None \<Rightarrow> 0 | Some c \<Rightarrow> c) + 1) acc)"

definition distribution :: "WaterSample list \<Rightarrow> (qualityCategory, nat) obj" where
  "distribution smps = foldl count_category [] (processedSamples smps)"

text \<open>
  \<open>x.toFixed(1)\<close> prints \<open>n / 10\<close> for the integer \<open>n\<close> that brings \<open>n / 10\<close> closest to
  \<open>x\<close>, the larger one on a tie. The model keeps the number printed, not its text.
\<close>

definition toFixed1 :: "real \<Rightarrow> real" where
  "toFixed1 x = of_int \<lfloor>x * 10 + 1 / 2\<rfloor> / 10"

text \<open>The category name with its first letter in upper case, and its colour.\<close>

fun capitalized :: "qualityCategory \<Rightarrow> string" where
  "capitalized excellent = ''Excellent''"
| "capitalized good = ''Good''"
| "capitalized moderate = ''Moderate''"
| "capitalized poor = ''Poor''"
| "capitalized unsuitable = ''Unsuitable''"

fun QUALITY_COLORS :: "qualityCategory \<Rightarrow> string" where
  "QUALITY_COLORS excellent = ''hsl(var(--excellent))''"
| "QUALITY_COLORS good = ''hsl(var(--good))''"
| "QUALITY_COLORS moderate = ''hsl(var(--moderate))''"
| "QUALITY_COLORS poor = ''hsl(var(--poor))''"
| "QUALITY_COLORS unsuitable = ''hsl(var(--unsuitable))''"

record distributionEntry =
  category :: string
  count :: nat
  percentage :: real
  color :: string

definition qualityDistribution :: "WaterSample list \<Rightarrow> distributionEntry list" where
  "qualityDistribution smps =
     map (\<lambda>(c, n).
            \<lparr> category = capitalized c,
              count = n,
              percentage = toFixed1 (real n / real (length (processedSamples smps)) * 100),
              color = QUALITY_COLORS c \<rparr>)
         (distribution smps)"

section \<open>A decimal parser and sample rows\<close>

text \<open>
  To run the model on concrete rows, \<open>parseFloat\<close> is instantiated with a parser of
  decimal literals: leading white space, an optional sign, then either the word
  \<open>Infinity\<close> or digits with an optional fraction and an optional exponent, the longest
  such prefix of the text, \<open>NaN\<close> when there is none. Its finite values are exact.
\<close>

definition is_digit :: "char \<Rightarrow> bool" where
  "is_digit c = (c \<in> set ''0123456789'')"

definition is_space :: "char \<Rightarrow> bool" where
  "is_space c = (c \<in> set [CHR '' '', CHR 0x09, CHR 0x0A, CHR 0x0D])"

text \<open>The value of a decimal digit, from its character code.\<close>

definition digit_val :: "char \<Rightarrow> nat" where
  "digit_val c = of_char c - of_char (CHR ''0'')"

definition nat_of_digits :: "string \<Rightarrow> nat" where
  "nat_of_digits ds = foldl (\<lambda>n c. 10 * n + digit_val c) 0 ds"

definition exponent_of :: "string \<Rightarrow> int" where
  "exponent_of s =
     (case s of
        [] \<Rightarrow> 0
      | c # cs \<Rightarrow>
          if c = CHR ''e'' \<or> c = CHR ''E''
          then (case cs of
                  [] \<Rightarrow> 0
                | d # ds \<Rightarrow>
                    if d = CHR ''-'' then - int (nat_of_digits (takeWhile is_digit ds))
                    else if d = CHR ''+'' then int (nat_of_digits (takeWhile is_digit ds))
                    else int (nat_of_digits (takeWhile is_digit cs)))
          else 0)"

datatype literal = NoLiteral | InfinityLiteral bool | DecimalLiteral real

definition read_literal :: "string \<Rightarrow> literal" where
  "read_literal s =
     (let s1 = dropWhile is_space s;
          neg = (case s1 of [] \<Rightarrow> False | c # cs \<Rightarrow> c = CHR ''-'');
          s2 = (case s1 of [] \<Rightarrow> [] | c # cs \<Rightarrow> if c = CHR ''-'' \<or> c = CHR ''+'' then cs else s1);
          ip = takeWhile is_digit s2;
          s3 = dropWhile is_digit s2;
          dot = (case s3 of [] \<Rightarrow> False | c # cs \<Rightarrow> c = CHR ''.'');
          fp = (if dot then takeWhile is_digit (tl s3) else []);
          s4 = (if dot then dropWhile is_digit (tl s3) else s3);
          m = real (nat_of_digits (ip @ fp)) / 10 ^ length fp * 10 powi exponent_of s4
      in if take 8 s2 = ''Infinity'' then InfinityLiteral neg
         else if ip = [] \<and> fp = [] then NoLiteral
         else DecimalLiteral (if neg then - m else m))"

definition parseDecimal :: "string \<Rightarrow> number" where
  "parseDecimal s =
     (case read_literal s of
        NoLiteral \<Rightarrow> NaN
      | InfinityLiteral neg \<Rightarrow> if neg then NInf else PInf
      | DecimalLiteral x \<Rightarrow> fin x)"

definition valid_row :: row where
  "valid_row = map_of
     [(''latitude'', ''12.5''), (''longitude'', ''77.6''), (''sampleDate'', ''2024-01-15''),
      (''As'', ''0.02''), (''Cd'', ''0.006''), (''Cr'', ''0.1''), (''Cu'', ''4.0''),
      (''Fe'', ''0.6''), (''Mn'', ''0.2''), (''Ni'', ''0.14''), (''Pb'', ''0.02''),
      (''Zn'', ''6.0'')]"

definition invalid_row :: row where
  "invalid_row = valid_row(''latitude'' \<mapsto> ''91'')"

definition undated_row :: row where
  "undated_row = valid_row(''sampleDate'' := None)"

text \<open>The valid row with an arsenic reading near the top of the binary64 range and no cadmium.\<close>

definition overflow_row :: row where
  "overflow_row = valid_row(''As'' \<mapsto> ''1e308'', ''Cd'' \<mapsto> ''0'')"

section \<open>Notions used in the statements\<close>

text \<open>The three tests of a row, by field.\<close>

definition bad_lat :: "number \<Rightarrow> bool" where
  "bad_lat lat = (isNaN lat \<or> num_less lat (Num (- 90)) \<or> num_greater lat (Num 90))"

definition bad_lng :: "number \<Rightarrow> bool" where
  "bad_lng lng = (isNaN lng \<or> num_less lng (Num (- 180)) \<or> num_greater lng (Num 180))"

definition bad_metal :: "(string \<Rightarrow> number) \<Rightarrow> row \<Rightarrow> string \<Rightarrow> bool" where
  "bad_metal parseFloat r metal =
     (isNaN (parseFloat (toString_arg (r metal)))
      \<or> num_less (parseFloat (toString_arg (r metal))) (Num 0))"

text \<open>A row whose \<open>sampleDate\<close> is absent or empty.\<close>

definition undated :: "row \<Rightarrow> bool" where
  "undated r = (case r ''sampleDate'' of None \<Rightarrow> True | Some s \<Rightarrow> s = [])"


text \<open>A metal panel of real concentrations, as an object of numbers.\<close>

definition panel_of :: "(string, real) obj \<Rightarrow> (string, number) obj" where
  "panel_of panel = map (\<lambda>(metal, x). (metal, Num x)) panel"

text \<open>The entries of a panel that the reference table matches.\<close>

definition matched :: "(string, real) obj \<Rightarrow> (string, real) obj" where
  "matched panel = filter (\<lambda>(metal, x). truthy (map_of WHO_STANDARDS metal)) panel"

text \<open>The order of the categories, from best to worst.\<close>

fun severity :: "qualityCategory \<Rightarrow> nat" where
  "severity excellent = 0"
| "severity good = 1"
| "severity moderate = 2"
| "severity poor = 3"
| "severity unsuitable = 4"

text \<open>The panel with twice the standard for every metal.\<close>

definition doubled_panel :: "(string, real) obj" where
  "doubled_panel =
     [(''As'', 0.02), (''Cd'', 0.006), (''Cr'', 0.1), (''Cu'', 4.0), (''Fe'', 0.6),
      (''Mn'', 0.2), (''Ni'', 0.14), (''Pb'', 0.02), (''Zn'', 6.0)]"

definition doubled_sample :: WaterSample where
  "doubled_sample =
     \<lparr> id_s = ''sample_1'', latitude = Num 12.5, longitude = Num 77.6,
       sampleDate = ''2024-01-15'', metals = panel_of doubled_panel, hmpiResults = None \<rparr>"

definition engine_with :: "bool \<Rightarrow> bool \<Rightarrow> bool \<Rightarrow> engine_state" where
  "engine_with h p c =
     \<lparr> selectedIndices = \<lparr> sel_hpi = h, sel_pli = p, sel_cf = c \<rparr>,
       isCalculating = False, progress = 0 \<rparr>"

text \<open>A sample carrying the results of given index values, classified by the engine.\<close>

definition result_sample :: "real \<Rightarrow> real \<Rightarrow> WaterSample" where
  "result_sample h p =
     doubled_sample\<lparr> hmpiResults :=
       Some \<lparr> hpi = Num h, pli = Num p, cf = Num 0,
              qualityCategory = categorizeWaterQuality (Num h) (Num p) \<rparr> \<rparr>"

text \<open>Fourteen samples: one in each of the four better categories, ten unsuitable.\<close>

definition batch14 :: "WaterSample list" where
  "batch14 =
     [result_sample 10 0.5, result_sample 30 1.5, result_sample 60 2.5, result_sample 90 4]
     @ replicate 10 (result_sample 200 6)"

section \<open>The validator in closed form\<close>

lemma forEach_metal_fst:
  "fst (forEach_metal pf r i ms (e, mv)) =
     e @ map (\<lambda>m. ''Invalid '' @ m @ '' concentration at row '' @ string_of_nat (i + 1))
           (filter (bad_metal pf r) ms)"
  by (induction ms arbitrary: e mv) (simp_all add: bad_metal_def Let_def)

lemma forEach_metal_snd:
  "snd (forEach_metal pf r i ms (e, mv)) = snd (forEach_metal pf r j ms (e', mv))"
  by (induction ms arbitrary: e e' mv) (simp_all add: Let_def)

lemma rowErrors_eq:
  "rowErrors pf i r =
     (if bad_lat (pf (toString_arg (r ''latitude'')))
      then [''Invalid latitude at row '' @ string_of_nat (i + 1)] else []) @
     (if bad_lng (pf (toString_arg (r ''longitude'')))
      then [''Invalid longitude at row '' @ string_of_nat (i + 1)] else []) @
     map (\<lambda>m. ''Invalid '' @ m @ '' concentration at row '' @ string_of_nat (i + 1))
       (filter (bad_metal pf r) metals_list)"
  by (simp add: rowErrors_def checkRow_def Let_def forEach_metal_fst bad_lat_def bad_lng_def)

lemma rowErrors_Nil_iff:
  "rowErrors pf i r = [] \<longleftrightarrow>
     \<not> bad_lat (pf (toString_arg (r ''latitude'')))
     \<and> \<not> bad_lng (pf (toString_arg (r ''longitude'')))
     \<and> filter (bad_metal pf r) metals_list = []"
  by (simp add: rowErrors_eq)

lemma rowErrors_Nil_index: "(rowErrors pf i r = []) = (rowErrors pf j r = [])"
  by (simp add: rowErrors_Nil_iff)

lemma metalValues_index: "metalValues pf i r = metalValues pf j r"
  by (simp add: metalValues_def checkRow_def Let_def forEach_metal_snd[of pf r i _ _ _ j])

lemma forEach_row_closed:
  "forEach_row pf clock i rs (es, ss) =
     (es @ concat (map (\<lambda>(j, r). rowErrors pf j r) (enumerate i rs)),
      ss @ map (\<lambda>(j, r). newSample pf clock j r)
             (filter (\<lambda>(j, r). rowErrors pf j r = []) (enumerate i rs)))"
  by (induction rs arbitrary: i es ss) (simp_all add: validateRow_def)

lemma validateData_samples:
  "samples (validateData pf clock data) =
     map (\<lambda>(j, r). newSample pf clock j r)
       (filter (\<lambda>(j, r). rowErrors pf j r = []) (enumerate 0 data))"
  by (cases data) (simp_all add: validateData_def forEach_row_closed Let_def)

lemma validateData_errors:
  "errors (validateData pf clock (r # rs)) =
     headerErrors r @ concat (map (\<lambda>(j, r). rowErrors pf j r) (enumerate 0 (r # rs)))"
  by (simp add: validateData_def forEach_row_closed Let_def)

lemma validateData_errors_clock:
  "errors (validateData pf clock data) = errors (validateData pf clock' data)"
  by (cases data) (simp_all add: validateData_def forEach_row_closed Let_def)

lemma validateData_isValid_clock:
  "isValid (validateData pf clock data) = isValid (validateData pf clock' data)"
  by (cases data) (simp_all add: validateData_def forEach_row_closed Let_def)

lemma enumerate_nth: "enumerate 0 xs = map (\<lambda>i. (i, xs ! i)) [0..<length xs]"
  by (rule nth_equalityI) (simp_all add: nth_enumerate_eq)

lemma validateData_ids:
  "map id_s (samples (validateData pf clock data)) =
     map (\<lambda>i. ''sample_'' @ string_of_nat (i + 1))
       (filter (\<lambda>i. rowErrors pf i (data ! i) = []) [0..<length data])"
  by (simp add: validateData_samples enumerate_nth filter_map comp_def newSample_def)


lemma sampleDate_stored:
  "map sampleDate (samples (validateData pf clock data)) =
     map (\<lambda>(i, r). case r ''sampleDate'' of None \<Rightarrow> clock i
                      | Some s \<Rightarrow> if s = [] then clock i else s)
       (filter (\<lambda>(i, r). rowErrors pf i r = []) (enumerate 0 data))"
  by (simp add: validateData_samples comp_def case_prod_unfold newSample_def sampleDate_or_def)

subsection \<open>The sample rows under the decimal parser\<close>

lemma threshold_bounds:
  "(10::real) ^ 308 < overflow_threshold" "overflow_threshold \<le> (10::real) ^ 310"
  unfolding overflow_threshold_def by simp_all

lemma fin_Num: "\<bar>x\<bar> < overflow_threshold \<Longrightarrow> fin x = Num x"
  by (auto simp: fin_def)

lemma fin_small: "\<bar>x\<bar> \<le> 10 ^ 9 \<Longrightarrow> fin x = Num x"
proof (rule fin_Num)
  assume "\<bar>x\<bar> \<le> 10 ^ 9"
  also have "(10::real) ^ 9 \<le> 10 ^ 308" by (rule power_increasing) simp_all
  also note threshold_bounds(1)
  finally show "\<bar>x\<bar> < overflow_threshold" .
qed

lemma read_literal_values:
  "read_literal ''12.5'' = DecimalLiteral (25 / 2)"
  "read_literal ''77.6'' = DecimalLiteral (388 / 5)"
  "read_literal ''91'' = DecimalLiteral 91"
  "read_literal ''0.02'' = DecimalLiteral (1 / 50)"
  "read_literal ''0.006'' = DecimalLiteral (3 / 500)"
  "read_literal ''0.1'' = DecimalLiteral (1 / 10)"
  "read_literal ''4.0'' = DecimalLiteral 4"
  "read_literal ''0.6'' = DecimalLiteral (3 / 5)"
  "read_literal ''0.2'' = DecimalLiteral (1 / 5)"
  "read_literal ''0.14'' = DecimalLiteral (7 / 50)"
  "read_literal ''6.0'' = DecimalLiteral 6"
  "read_literal ''0'' = DecimalLiteral 0"
  by code_simp+

lemma parseDecimal_values:
  "parseDecimal ''12.5'' = Num (25 / 2)"
  "parseDecimal ''77.6'' = Num (388 / 5)"
  "parseDecimal ''91'' = Num 91"
  "parseDecimal ''0.02'' = Num (1 / 50)"
  "parseDecimal ''0.006'' = Num (3 / 500)"
  "parseDecimal ''0.1'' = Num (1 / 10)"
  "parseDecimal ''4.0'' = Num 4"
  "parseDecimal ''0.6'' = Num (3 / 5)"
  "parseDecimal ''0.2'' = Num (1 / 5)"
  "parseDecimal ''0.14'' = Num (7 / 50)"
  "parseDecimal ''6.0'' = Num 6"
  "parseDecimal ''0'' = Num 0"
  by (simp_all add: parseDecimal_def read_literal_values fin_small)

lemma valid_row_ok: "rowErrors parseDecimal i valid_row = []"
  by (simp add: rowErrors_Nil_iff valid_row_def toString_arg_def parseDecimal_values
      bad_lat_def bad_lng_def bad_metal_def metals_list_def num_greater_def)

lemma undated_row_ok: "rowErrors parseDecimal i undated_row = []"
  by (simp add: rowErrors_Nil_iff undated_row_def valid_row_def toString_arg_def
      parseDecimal_values bad_lat_def bad_lng_def bad_metal_def metals_list_def num_greater_def)

lemma invalid_row_bad:
  "rowErrors parseDecimal i invalid_row = [''Invalid latitude at row '' @ string_of_nat (i + 1)]"
  by (simp add: rowErrors_eq invalid_row_def valid_row_def toString_arg_def parseDecimal_values
      bad_lat_def bad_lng_def bad_metal_def metals_list_def num_greater_def)

lemma ids_example:
  "map id_s (samples (validateData parseDecimal clock [valid_row, invalid_row, valid_row]))
     = [''sample_1'', ''sample_3'']"
  by (simp add: validateData_samples valid_row_ok invalid_row_bad newSample_def) code_simp

lemma valid_header: "headerErrors valid_row = []"
  by (simp add: headerErrors_def missingColumns_def requiredColumns_def valid_row_def)

lemma errors_example:
  "errors (validateData parseDecimal clock [valid_row, invalid_row, valid_row])
     = [''Invalid latitude at row 2'']"
  by (simp add: validateData_errors valid_row_ok invalid_row_bad valid_header) code_simp

lemma undated_samples:
  "map sampleDate (samples (validateData parseDecimal clock [undated_row])) = [clock 0]"
proof -
  have "samples (validateData parseDecimal clock [undated_row])
          = [newSample parseDecimal clock 0 undated_row]"
    by (simp add: validateData_samples undated_row_ok)
  then show ?thesis
    by (simp add: newSample_def sampleDate_or_def undated_row_def)
qed


section \<open>Determinism of the validator\<close>

lemma newSample_clock:
  "(undated r \<Longrightarrow> clock i = clock' i) \<Longrightarrow> newSample pf clock i r = newSample pf clock' i r"
  by (auto simp: newSample_def sampleDate_or_def undated_def split: option.splits)

lemma newSample_date_erased:
  "(newSample pf clock i r)\<lparr>sampleDate := []\<rparr> = (newSample pf clock' i r)\<lparr>sampleDate := []\<rparr>"
  by (simp add: newSample_def)

lemma samples_date_erased:
  "map (\<lambda>s. s\<lparr>sampleDate := []\<rparr>) (samples (validateData pf clock data))
     = map (\<lambda>s. s\<lparr>sampleDate := []\<rparr>) (samples (validateData pf clock' data))"
  unfolding validateData_samples map_map
  by (rule map_cong[OF refl])
     (simp add: case_prod_unfold newSample_date_erased[of pf clock _ _ clock'])

lemma validateData_clock:
  assumes h: "\<forall>i<length data. rowErrors pf i (data ! i) = [] \<and> undated (data ! i)
                \<longrightarrow> clock i = clock' i"
  shows "validateData pf clock data = validateData pf clock' data"
proof -
  have "samples (validateData pf clock data) = samples (validateData pf clock' data)"
    unfolding validateData_samples
  proof (rule map_cong[OF refl])
    fix p assume "p \<in> set (filter (\<lambda>(j, r). rowErrors pf j r = []) (enumerate 0 data))"
    then have "fst p < length data" "data ! fst p = snd p" "rowErrors pf (fst p) (snd p) = []"
      by (simp_all add: in_set_enumerate_eq case_prod_unfold)
    with h have "undated (snd p) \<Longrightarrow> clock (fst p) = clock' (fst p)" by auto
    then have "newSample pf clock (fst p) (snd p) = newSample pf clock' (fst p) (snd p)"
      by (rule newSample_clock)
    then show "(case p of (j, r) \<Rightarrow> newSample pf clock j r)
                 = (case p of (j, r) \<Rightarrow> newSample pf clock' j r)"
      by (simp add: case_prod_unfold)
  qed
  with validateData_errors_clock[of pf clock data clock']
    validateData_isValid_clock[of pf clock data clock']
  show ?thesis by (intro validation.equality) simp_all
qed

text \<open>
  C1, as it holds. Two runs of \<open>validateData\<close> on the same rows produce the same
  diagnostics, the same validity flag and the same accepted samples in the same order,
  with the same ids, coordinates and metals; the \<open>sampleDate\<close> values can differ, and only
  on accepted rows whose \<open>sampleDate\<close> is absent or empty, which take the date the clock
  shows during the run: every other accepted sample carries the text of its row. The
  whole output is the same as soon as the two runs read the same date for those rows.
\<close>

theorem validateData_deterministic_modulo_clock:
  "errors (validateData pf clock data) = errors (validateData pf clock' data)
   \<and> isValid (validateData pf clock data) = isValid (validateData pf clock' data)
   \<and> map (\<lambda>s. s\<lparr>sampleDate := []\<rparr>) (samples (validateData pf clock data))
       = map (\<lambda>s. s\<lparr>sampleDate := []\<rparr>) (samples (validateData pf clock' data))
   \<and> ((\<forall>i<length data. rowErrors pf i (data ! i) = [] \<and> undated (data ! i)
          \<longrightarrow> clock i = clock' i)
        \<longrightarrow> validateData pf clock data = validateData pf clock' data)
   \<and> map sampleDate (samples (validateData pf clock data)) =
       map (\<lambda>(i, r). case r ''sampleDate'' of None \<Rightarrow> clock i
                        | Some s \<Rightarrow> if s = [] then clock i else s)
         (filter (\<lambda>(i, r). rowErrors pf i r = []) (enumerate 0 data))"
  by (intro conjI impI)
     (rule validateData_errors_clock, rule validateData_isValid_clock,
      rule samples_date_erased, erule validateData_clock, rule sampleDate_stored)

theorem validateData_deterministic_modulo_clock_witness:
  "rowErrors parseDecimal 0 undated_row = [] \<and> undated undated_row
   \<and> (\<lambda>i. if i = 0 then ''2026-11-02'' else ''2026-11-03'') (0::nat)
       = (\<lambda>i. if i = 0 then ''2026-11-02'' else ''2026-11-04'') (0::nat)
   \<and> \<not> undated valid_row
   \<and> validateData parseDecimal (\<lambda>i. if i = 0 then ''2026-11-02'' else ''2026-11-03'')
         [undated_row, valid_row]
     = validateData parseDecimal (\<lambda>i. if i = 0 then ''2026-11-02'' else ''2026-11-04'')
         [undated_row, valid_row]"
proof -
  have u: "undated undated_row" by (simp add: undated_def undated_row_def)
  have v: "\<not> undated valid_row" by (simp add: undated_def valid_row_def)
  have h: "\<forall>i<length [undated_row, valid_row].
       rowErrors parseDecimal i ([undated_row, valid_row] ! i) = []
       \<and> undated ([undated_row, valid_row] ! i)
       \<longrightarrow> (\<lambda>i. if i = 0 then ''2026-11-02'' else ''2026-11-03'') i
            = (\<lambda>i. if i = 0 then ''2026-11-02'' else ''2026-11-04'') i"
    using v by (simp add: All_less_Suc)
  from validateData_deterministic_modulo_clock
         [of parseDecimal "\<lambda>i. if i = 0 then ''2026-11-02'' else ''2026-11-03''"
             "[undated_row, valid_row]"
             "\<lambda>i. if i = 0 then ''2026-11-02'' else ''2026-11-04''"]
  have "validateData parseDecimal (\<lambda>i. if i = 0 then ''2026-11-02'' else ''2026-11-03'')
         [undated_row, valid_row]
     = validateData parseDecimal (\<lambda>i. if i = 0 then ''2026-11-02'' else ''2026-11-04'')
         [undated_row, valid_row]"
    using h by (elim conjE impE)
  with u v undated_row_ok[of 0] show ?thesis by simp
qed

text \<open>
  C1 as stated fails: the same single row, without a \<open>sampleDate\<close>, validated on two
  different days gives two different outputs.
\<close>

theorem validateData_clock_counterexample:
  "validateData parseDecimal (\<lambda>i. ''2026-11-02'') [undated_row]
     \<noteq> validateData parseDecimal (\<lambda>i. ''2026-11-03'') [undated_row]"
proof
  assume "validateData parseDecimal (\<lambda>i. ''2026-11-02'') [undated_row]
     = validateData parseDecimal (\<lambda>i. ''2026-11-03'') [undated_row]"
  then have "map sampleDate (samples (validateData parseDecimal (\<lambda>i. ''2026-11-02'') [undated_row]))
     = map sampleDate (samples (validateData parseDecimal (\<lambda>i. ''2026-11-03'') [undated_row]))"
    by simp
  then show False
    by (simp only: undated_samples) simp
qed

section \<open>Acceptance of rows and sample ids\<close>

text \<open>
  C7. The accepted samples are exactly the rows with no diagnostic of their own, in the
  order of the input, each built from its index and its row alone; the diagnostics
  returned are those of the column check followed by those of each row; and whether a row
  has a diagnostic does not depend on its position, hence not on the other rows. A batch
  of a valid row, a row with latitude 91 and the valid row again gets the one diagnostic
  of row 2.
\<close>

theorem row_acceptance:
  "samples (validateData pf clock data) =
     map (\<lambda>(i, r). newSample pf clock i r)
       (filter (\<lambda>(i, r). rowErrors pf i r = []) (enumerate 0 data))
   \<and> errors (validateData pf clock (r # rs)) =
       headerErrors r @ concat (map (\<lambda>(i, r). rowErrors pf i r) (enumerate 0 (r # rs)))
   \<and> (rowErrors pf i r' = []) = (rowErrors pf j r' = [])
   \<and> errors (validateData parseDecimal clock [valid_row, invalid_row, valid_row])
       = [''Invalid latitude at row 2'']"
  by (intro conjI)
     (rule validateData_samples, rule validateData_errors, rule rowErrors_Nil_index,
      rule errors_example)

text \<open>
  C8. The ids of the accepted samples are \<open>sample_<i+1>\<close> for the indices \<open>i\<close> of the
  accepted rows, counted in the input; rows valid, invalid, valid give \<open>sample_1\<close> and
  \<open>sample_3\<close>.
\<close>

theorem sample_ids_stable:
  "map id_s (samples (validateData pf clock data)) =
     map (\<lambda>i. ''sample_'' @ string_of_nat (i + 1))
       (filter (\<lambda>i. rowErrors pf i (data ! i) = []) [0..<length data])
   \<and> map id_s (samples (validateData parseDecimal clock [valid_row, invalid_row, valid_row]))
       = [''sample_1'', ''sample_3'']"
  by (intro conjI) (rule validateData_ids, rule ids_example)

section \<open>The sampleDate field\<close>












section \<open>The indices of the doubled panel\<close>

lemma root9: "(512::real) powr (1 / 9) = 2"
proof -
  have "(512::real) = 2 powr 9" by simp
  then have "(512::real) powr (1 / 9) = (2 powr 9) powr (1 / 9)" by simp
  also have "\<dots> = 2 powr (9 * (1 / 9))" by (rule powr_powr)
  also have "\<dots> = 2" by simp
  finally show ?thesis .
qed

lemma hpi_doubled: "calculateHPI (panel_of doubled_panel) = Num 200"
  by (simp add: calculateHPI_def panel_of_def doubled_panel_def WHO_STANDARDS_def
      METAL_WEIGHTS_def num_greater_def fin_small)

lemma pli_loop_doubled: "pli_loop (panel_of doubled_panel) (Num 1, 0) = (Num 512, 9)"
  by (simp add: panel_of_def doubled_panel_def WHO_STANDARDS_def fin_small)

lemma pli_doubled: "calculatePLI (panel_of doubled_panel) = Num 2"
  by (simp add: calculatePLI_def pli_loop_doubled root9 fin_small)

text \<open>
  C3. On the panel with twice the standard for each of the nine metals, and the weights
  of the source (all 1), \<open>calculateHPI\<close> returns 200 and \<open>calculatePLI\<close> returns 2.
\<close>

theorem doubled_panel_known_values:
  "calculateHPI (panel_of doubled_panel) = Num 200
   \<and> calculatePLI (panel_of doubled_panel) = Num 2"
  by (intro conjI) (rule hpi_doubled, rule pli_doubled)

section \<open>The classifier\<close>

text \<open>
  C4. On real arguments the category is the first rule of the cascade whose two bounds
  both hold: each category is returned exactly when its rule holds and no earlier one
  does, and \<open>unsuitable\<close> exactly when none holds.
\<close>

theorem categorize_cascade:
  "(categorizeWaterQuality (Num h) (Num p) = excellent \<longleftrightarrow> h < 25 \<and> p < 1)
   \<and> (categorizeWaterQuality (Num h) (Num p) = good \<longleftrightarrow>
        \<not> (h < 25 \<and> p < 1) \<and> h < 50 \<and> p < 2)
   \<and> (categorizeWaterQuality (Num h) (Num p) = moderate \<longleftrightarrow>
        \<not> (h < 25 \<and> p < 1) \<and> \<not> (h < 50 \<and> p < 2) \<and> h < 75 \<and> p < 3)
   \<and> (categorizeWaterQuality (Num h) (Num p) = poor \<longleftrightarrow>
        \<not> (h < 25 \<and> p < 1) \<and> \<not> (h < 50 \<and> p < 2) \<and> \<not> (h < 75 \<and> p < 3)
        \<and> h < 100 \<and> p < 5)
   \<and> (categorizeWaterQuality (Num h) (Num p) = unsuitable \<longleftrightarrow>
        \<not> (h < 25 \<and> p < 1) \<and> \<not> (h < 50 \<and> p < 2) \<and> \<not> (h < 75 \<and> p < 3)
        \<and> \<not> (h < 100 \<and> p < 5))"
  by (simp add: categorizeWaterQuality_def)

text \<open>
  C5, as it holds. The classifier is monotone in both arguments for the order
  excellent, good, moderate, poor, unsuitable; with \<open>pli\<close> at 0.5 the values 24.9, 25,
  49.9 and 50 of \<open>hpi\<close> are classified excellent, good, good and moderate.
\<close>

theorem categorize_monotone:
  "(h1 \<le> h2 \<and> p1 \<le> p2 \<longrightarrow>
      severity (categorizeWaterQuality (Num h1) (Num p1))
        \<le> severity (categorizeWaterQuality (Num h2) (Num p2)))
   \<and> categorizeWaterQuality (Num 24.9) (Num 0.5) = excellent
   \<and> categorizeWaterQuality (Num 25) (Num 0.5) = good
   \<and> categorizeWaterQuality (Num 49.9) (Num 0.5) = good
   \<and> categorizeWaterQuality (Num 50) (Num 0.5) = moderate"
  by (simp add: categorizeWaterQuality_def)

theorem categorize_monotone_witness:
  "(10::real) \<le> 60 \<and> (0.5::real) \<le> 2.5
   \<and> severity (categorizeWaterQuality (Num 10) (Num 0.5))
       \<le> severity (categorizeWaterQuality (Num 60) (Num 2.5))"
  using categorize_monotone[of 10 60 "0.5" "2.5"] by simp

text \<open>
  C5 as stated fails at its last value: the bound 50 is strict, so \<open>hpi = 50\<close> with
  \<open>pli = 0.5\<close> is moderate, not good.
\<close>

theorem categorize_at_50_counterexample:
  "categorizeWaterQuality (Num 50) (Num 0.5) \<noteq> good
   \<and> categorizeWaterQuality (Num 50) (Num 0.5) = moderate"
  by (simp add: categorizeWaterQuality_def)

section \<open>A zero concentration and the pollution load index\<close>

lemma standard_bound: "map_of WHO_STANDARDS m = Some s \<Longrightarrow> 3 / 1000 \<le> s"
  by (auto simp: WHO_STANDARDS_def split: if_splits)

lemma cf_bound:
  assumes "\<bar>c\<bar> \<le> 10 ^ 30" "3 / 1000 \<le> s"
  shows "\<bar>c / s\<bar> \<le> (10::real) ^ 33"
proof -
  from assms(2) have s: "0 < s" by simp
  have "\<bar>c / s\<bar> = \<bar>c\<bar> / s" using s by simp
  also have "\<dots> \<le> 10 ^ 30 / s" using assms(1) s by (simp add: divide_right_mono)
  also have "\<dots> \<le> 10 ^ 30 / (3 / 1000)" using assms(2) by (intro divide_left_mono) simp_all
  also have "\<dots> \<le> 10 ^ 33" by simp
  finally show ?thesis .
qed

lemma power_bound:
  assumes "j \<le> 9" "\<bar>x\<bar> \<le> ((10::real) ^ 33) ^ j"
  shows "\<bar>x\<bar> < overflow_threshold"
proof -
  have "((10::real) ^ 33) ^ j \<le> (10 ^ 33) ^ 9" using assms(1) by (intro power_increasing) simp_all
  also have "\<dots> = 10 ^ 297" by simp
  also have "\<dots> \<le> 10 ^ 308" by (rule power_increasing) simp_all
  also note threshold_bounds(1)
  finally show ?thesis using assms(2) by simp
qed

lemma matched_Cons:
  "matched ((m, c) # es) = (if truthy (map_of WHO_STANDARDS m) then (m, c) # matched es else matched es)"
  by (simp add: matched_def)

lemma pli_loop_bounded:
  assumes "list_all (\<lambda>(m, c). \<bar>c\<bar> \<le> 10 ^ 30) panel"
    and "\<bar>a\<bar> \<le> (10 ^ 33) ^ j"
    and "j + length (matched panel) \<le> 9"
  shows "\<exists>a' n'. pli_loop (panel_of panel) (Num a, n) = (Num a', n') \<and> n \<le> n'
           \<and> (a = 0 \<longrightarrow> a' = 0)
           \<and> ((\<exists>m. (m, 0) \<in> set panel \<and> truthy (map_of WHO_STANDARDS m)) \<longrightarrow> a' = 0 \<and> n < n')"
  using assms
proof (induction panel arbitrary: a n j)
  case Nil
  then show ?case by (simp add: panel_of_def)
next
  case (Cons e es)
  obtain m c where e: "e = (m, c)" by (cases e)
  from Cons.prems(1) have c: "\<bar>c\<bar> \<le> 10 ^ 30" and rest: "list_all (\<lambda>(m, c). \<bar>c\<bar> \<le> 10 ^ 30) es"
    by (simp_all add: e)
  show ?case
  proof (cases "truthy (map_of WHO_STANDARDS m)")
    case False
    then have step: "pli_loop (panel_of (e # es)) (Num a, n) = pli_loop (panel_of es) (Num a, n)"
      by (simp add: panel_of_def e)
    from False Cons.prems(3) have len: "j + length (matched es) \<le> 9"
      by (simp add: e matched_Cons)
    from Cons.IH[OF rest Cons.prems(2) len, of n] obtain a' n' where
      r: "pli_loop (panel_of es) (Num a, n) = (Num a', n')" "n \<le> n'" "a = 0 \<longrightarrow> a' = 0"
         "(\<exists>m. (m, 0) \<in> set es \<and> truthy (map_of WHO_STANDARDS m)) \<longrightarrow> a' = 0 \<and> n < n'"
      by blast
    have "(\<exists>m'. (m', 0) \<in> set (e # es) \<and> truthy (map_of WHO_STANDARDS m'))
            \<longrightarrow> (\<exists>m'. (m', 0) \<in> set es \<and> truthy (map_of WHO_STANDARDS m'))"
      using False by (auto simp: e)
    with r show ?thesis unfolding step by blast
  next
    case True
    then obtain s where s: "map_of WHO_STANDARDS m = Some s" "s \<noteq> 0"
      by (cases "map_of WHO_STANDARDS m") auto
    from standard_bound[OF s(1)] have sb: "3 / 1000 \<le> s" .
    from cf_bound[OF c sb] have cfb: "\<bar>c / s\<bar> \<le> 10 ^ 33" .
    then have "\<bar>c / s\<bar> \<le> ((10::real) ^ 33) ^ 1" by simp
    then have d: "num_div (Num c) (Num s) = Num (c / s)"
      using s(2) power_bound[of 1 "c / s"] by (simp add: fin_Num)
    from True Cons.prems(3) have len: "Suc j + length (matched es) \<le> 9"
      by (simp add: e matched_Cons)
    have ab: "\<bar>a * (c / s)\<bar> \<le> (10 ^ 33) ^ Suc j"
    proof -
      have "\<bar>a * (c / s)\<bar> = \<bar>a\<bar> * \<bar>c / s\<bar>" by (rule abs_mult)
      also have "\<dots> \<le> (10 ^ 33) ^ j * 10 ^ 33"
        using Cons.prems(2) cfb by (intro mult_mono) simp_all
      finally show ?thesis by (simp add: mult.commute)
    qed
    from len have "Suc j \<le> 9" by simp
    from power_bound[OF this ab] have mu: "num_mul (Num a) (Num (c / s)) = Num (a * (c / s))"
      by (simp add: fin_Num)
    have step: "pli_loop (panel_of (e # es)) (Num a, n)
                  = pli_loop (panel_of es) (Num (a * (c / s)), n + 1)"
    proof -
      have "pli_loop (panel_of (e # es)) (Num a, n)
              = pli_loop (panel_of es) (num_mul (Num a) (num_div (Num c) (Num s)), n + 1)"
        using True s by (simp add: panel_of_def e del: num_div.simps num_mul.simps)
      then show ?thesis by (simp only: d mu)
    qed
    from Cons.IH[OF rest ab len, of "n + 1"] obtain a' n' where
      r: "pli_loop (panel_of es) (Num (a * (c / s)), n + 1) = (Num a', n')" "n + 1 \<le> n'"
         "a * (c / s) = 0 \<longrightarrow> a' = 0"
         "(\<exists>m. (m, 0) \<in> set es \<and> truthy (map_of WHO_STANDARDS m)) \<longrightarrow> a' = 0 \<and> n + 1 < n'"
      by blast
    have z: "a' = 0 \<and> n < n'" if "\<exists>m'. (m', 0) \<in> set (e # es) \<and> truthy (map_of WHO_STANDARDS m')"
    proof (cases "c = 0")
      case True
      with r(2,3) show ?thesis by simp
    next
      case False
      with that have "\<exists>m'. (m', 0) \<in> set es \<and> truthy (map_of WHO_STANDARDS m')"
        by (auto simp: e)
      with r(4) show ?thesis by simp
    qed
    from r(1,2,3) z show ?thesis unfolding step by auto
  qed
qed

lemma matched_length: "distinct (map fst panel) \<Longrightarrow> length (matched panel) \<le> 9"
proof -
  assume d: "distinct (map fst panel)"
  then have dm: "distinct (map fst (matched panel))"
    unfolding matched_def by (rule distinct_map_filter)
  have sub: "set (map fst (matched panel)) \<subseteq> set (map fst WHO_STANDARDS)"
  proof
    fix k assume "k \<in> set (map fst (matched panel))"
    then have "truthy (map_of WHO_STANDARDS k)" by (auto simp: matched_def)
    then have "map_of WHO_STANDARDS k \<noteq> None" by (cases "map_of WHO_STANDARDS k") simp_all
    then show "k \<in> set (map fst WHO_STANDARDS)" by (simp add: map_of_eq_None_iff)
  qed
  have "length (matched panel) = card (set (map fst (matched panel)))"
    using distinct_card[OF dm] by simp
  also have "\<dots> \<le> card (set (map fst WHO_STANDARDS))"
    by (rule card_mono[OF _ sub]) simp
  also have "\<dots> \<le> length (map fst WHO_STANDARDS)" by (rule card_length)
  also have "\<dots> = 9" by (simp add: WHO_STANDARDS_def)
  finally show ?thesis .
qed

text \<open>
  C6, as it holds. If a panel (an object, so with distinct metal keys) has all its
  concentrations of magnitude at most \<open>10 ^ 30\<close> and holds a metal of the reference
  table with concentration 0, \<open>calculatePLI\<close> returns 0, whatever the other concentrations
  within that bound are.
\<close>

theorem pli_zero_collapse:
  "distinct (map fst panel) \<Longrightarrow> list_all (\<lambda>(m, c). \<bar>c\<bar> \<le> 10 ^ 30) panel \<Longrightarrow>
   (metal, 0) \<in> set panel \<Longrightarrow> truthy (map_of WHO_STANDARDS metal) \<Longrightarrow>
     calculatePLI (panel_of panel) = Num 0"
proof -
  assume d: "distinct (map fst panel)" and b: "list_all (\<lambda>(m, c). \<bar>c\<bar> \<le> 10 ^ 30) panel"
    and z: "(metal, 0) \<in> set panel" "truthy (map_of WHO_STANDARDS metal)"
  from matched_length[OF d] have len: "0 + length (matched panel) \<le> 9" by simp
  have one: "\<bar>1::real\<bar> \<le> (10 ^ 33) ^ 0" by simp
  from pli_loop_bounded[OF b one len, of 0] z obtain n' where
    r: "pli_loop (panel_of panel) (Num 1, 0) = (Num 0, n')" "0 < n'" by blast
  from r(2) have "\<bar>1 / real n'\<bar> \<le> 10 ^ 9"
    by (simp add: field_simps)
  then have "num_div (Num 1) (Num (real n')) = Num (1 / real n')"
    using r(2) by (simp add: fin_small)
  with r show ?thesis by (simp add: calculatePLI_def)
qed

theorem pli_zero_collapse_witness:
  "distinct (map fst [(''As'', 5::real), (''Cd'', 0), (''Pb'', 1000000)])
   \<and> list_all (\<lambda>(m, c). \<bar>c\<bar> \<le> 10 ^ 30) [(''As'', 5::real), (''Cd'', 0), (''Pb'', 1000000)]
   \<and> (''Cd'', 0::real) \<in> set [(''As'', 5), (''Cd'', 0), (''Pb'', 1000000)]
   \<and> truthy (map_of WHO_STANDARDS ''Cd'')
   \<and> calculatePLI (panel_of [(''As'', 5), (''Cd'', 0), (''Pb'', 1000000)]) = Num 0"
proof -
  have h0: "distinct (map fst [(''As'', 5::real), (''Cd'', 0), (''Pb'', 1000000)])" by simp
  have hb: "list_all (\<lambda>(m, c). \<bar>c\<bar> \<le> 10 ^ 30) [(''As'', 5::real), (''Cd'', 0), (''Pb'', 1000000)]"
    by simp
  have h1: "(''Cd'', 0::real) \<in> set [(''As'', 5), (''Cd'', 0), (''Pb'', 1000000)]" by simp
  have h2: "truthy (map_of WHO_STANDARDS ''Cd'')" by (simp add: WHO_STANDARDS_def)
  from h0 hb h1 h2 pli_zero_collapse[OF h0 hb h1 h2] show ?thesis by (intro conjI)
qed

lemma overflow_literal: "parseDecimal ''1e308'' = Num (10 ^ 308)"
proof -
  have "read_literal ''1e308'' = DecimalLiteral (10 ^ 308)" by code_simp
  then show ?thesis using threshold_bounds(1) by (simp add: parseDecimal_def fin_Num)
qed

lemma overflow_row_ok: "rowErrors parseDecimal i overflow_row = []"
  by (simp add: rowErrors_Nil_iff overflow_row_def valid_row_def toString_arg_def
      parseDecimal_values overflow_literal bad_lat_def bad_lng_def bad_metal_def metals_list_def
      num_greater_def)

lemma overflow_row_metals:
  "metalValues parseDecimal i overflow_row =
     [(''As'', Num (10 ^ 308)), (''Cd'', Num 0), (''Cr'', Num (1 / 10)), (''Cu'', Num 4),
      (''Fe'', Num (3 / 5)), (''Mn'', Num (1 / 5)), (''Ni'', Num (7 / 50)),
      (''Pb'', Num (1 / 50)), (''Zn'', Num 6)]"
  by (simp add: metalValues_def checkRow_def Let_def overflow_row_def valid_row_def toString_arg_def
      parseDecimal_values overflow_literal metals_list_def)

text \<open>
  C6 as stated fails: a row that the validator accepts, with arsenic at \<open>1e308\<close> and
  cadmium at 0, gives a panel on which the first contamination factor overflows to an
  infinity, the product with the zero factor is \<open>NaN\<close>, and \<open>calculatePLI\<close> returns
  \<open>NaN\<close>.
\<close>

theorem pli_overflow_counterexample:
  "rowErrors parseDecimal 0 overflow_row = []
   \<and> (''Cd'', Num 0) \<in> set (metalValues parseDecimal 0 overflow_row)
   \<and> truthy (map_of WHO_STANDARDS ''Cd'')
   \<and> calculatePLI (metalValues parseDecimal 0 overflow_row) = NaN"
proof -
  have "pli_loop (metalValues parseDecimal 0 overflow_row) (Num 1, 0) = (NaN, 9)"
    unfolding overflow_row_metals
    by (simp add: WHO_STANDARDS_def fin_def overflow_threshold_def)
  then have "calculatePLI (metalValues parseDecimal 0 overflow_row) = NaN"
    by (simp add: calculatePLI_def fin_small)
  then show ?thesis
    by (simp add: overflow_row_ok overflow_row_metals WHO_STANDARDS_def)
qed


section \<open>What the results of a sample depend on\<close>

text \<open>
  C2, as it holds. The results attached to a sample are a function of its metals and of
  the selection of indices in force: two samples with equal metals, at any positions of
  any two batches, computed under states with the same selection, get the same \<open>hpi\<close>,
  \<open>pli\<close>, \<open>cf\<close> and \<open>qualityCategory\<close>; the other fields of the sample and the rest of
  the state have no influence.
\<close>

theorem results_depend_on_metals_and_selection:
  "i < length smps \<Longrightarrow> j < length smps' \<Longrightarrow> metals (smps ! i) = metals (smps' ! j) \<Longrightarrow>
   selectedIndices st = selectedIndices st' \<Longrightarrow>
     hmpiResults (performCalculations st smps ! i)
       = hmpiResults (performCalculations st' smps' ! j)"
  by (simp add: performCalculations_def calculateSample_def Let_def)

theorem results_depend_on_metals_and_selection_witness:
  "0 < length [doubled_sample]
   \<and> 1 < length [result_sample 10 0.5, doubled_sample\<lparr>id_s := ''sample_7''\<rparr>]
   \<and> metals ([doubled_sample] ! 0)
       = metals ([result_sample 10 0.5, doubled_sample\<lparr>id_s := ''sample_7''\<rparr>] ! 1)
   \<and> selectedIndices (engine_with True True False)
       = selectedIndices ((engine_with True True False)\<lparr>progress := 50\<rparr>)
   \<and> hmpiResults (performCalculations (engine_with True True False) [doubled_sample] ! 0)
       = hmpiResults (performCalculations ((engine_with True True False)\<lparr>progress := 50\<rparr>)
            [result_sample 10 0.5, doubled_sample\<lparr>id_s := ''sample_7''\<rparr>] ! 1)"
  using results_depend_on_metals_and_selection
          [of 0 "[doubled_sample]" 1
              "[result_sample 10 0.5, doubled_sample\<lparr>id_s := ''sample_7''\<rparr>]"
              "engine_with True True False"
              "(engine_with True True False)\<lparr>progress := 50\<rparr>"]
  by (simp add: engine_with_def)

text \<open>
  C2 as stated fails: the same sample gets \<open>hpi = 200\<close> when the index is selected and
  \<open>hpi = 0\<close> when it is not.
\<close>

theorem results_selection_counterexample:
  "map_option hpi (hmpiResults (performCalculations (engine_with True True False)
                                  [doubled_sample] ! 0)) = Some (Num 200)
   \<and> map_option hpi (hmpiResults (performCalculations (engine_with False True False)
                                  [doubled_sample] ! 0)) = Some (Num 0)
   \<and> hmpiResults (performCalculations (engine_with True True False) [doubled_sample] ! 0)
       \<noteq> hmpiResults (performCalculations (engine_with False True False) [doubled_sample] ! 0)"
proof -
  have a: "map_option hpi (hmpiResults (performCalculations (engine_with True True False)
                                  [doubled_sample] ! 0)) = Some (Num 200)"
    by (simp add: performCalculations_def calculateSample_def Let_def engine_with_def
        doubled_sample_def hpi_doubled)
  have b: "map_option hpi (hmpiResults (performCalculations (engine_with False True False)
                                  [doubled_sample] ! 0)) = Some (Num 0)"
    by (simp add: performCalculations_def calculateSample_def Let_def engine_with_def
        doubled_sample_def)
  have "hmpiResults (performCalculations (engine_with True True False) [doubled_sample] ! 0)
       \<noteq> hmpiResults (performCalculations (engine_with False True False) [doubled_sample] ! 0)"
  proof
    assume "hmpiResults (performCalculations (engine_with True True False) [doubled_sample] ! 0)
       = hmpiResults (performCalculations (engine_with False True False) [doubled_sample] ! 0)"
    then have "map_option hpi (hmpiResults (performCalculations (engine_with True True False)
                                  [doubled_sample] ! 0))
       = map_option hpi (hmpiResults (performCalculations (engine_with False True False)
                                  [doubled_sample] ! 0))"
      by (rule arg_cong)
    then show False unfolding a b by simp
  qed
  with a b show ?thesis by (intro conjI)
qed

section \<open>The percentages of the distribution\<close>

lemma obj_set_keys: "set (map fst (obj_set k v acc)) = insert k (set (map fst acc))"
  by (induction acc) auto

lemma obj_set_distinct: "distinct (map fst acc) \<Longrightarrow> distinct (map fst (obj_set k v acc))"
proof (induction acc)
  case Nil
  then show ?case by simp
next
  case (Cons p ps)
  then show ?case
    using obj_set_keys[of k v ps] by (cases "fst p = k") auto
qed

lemma obj_set_sum:
  "sum_list (map snd (obj_set k (Suc (case map_of acc k of None \<Rightarrow> 0 | Some c \<Rightarrow> c)) acc))
     = Suc (sum_list (map snd acc))"
  by (induction acc) auto

lemma count_category_distinct:
  "distinct (map fst acc) \<Longrightarrow> distinct (map fst (count_category acc s))"
  by (cases "hmpiResults s") (simp_all add: count_category_def obj_set_distinct)

lemma count_category_sum:
  "sum_list (map snd (count_category acc s))
     = sum_list (map snd acc) + (if hmpiResults s \<noteq> None then 1 else 0)"
  by (cases "hmpiResults s") (simp_all add: count_category_def obj_set_sum)

lemma foldl_count_distinct:
  "distinct (map fst acc) \<Longrightarrow> distinct (map fst (foldl count_category acc ps))"
  by (induction ps arbitrary: acc) (simp_all add: count_category_distinct)

lemma foldl_count_sum:
  "sum_list (map snd (foldl count_category acc ps))
     = sum_list (map snd acc) + length (filter (\<lambda>s. hmpiResults s \<noteq> None) ps)"
  by (induction ps arbitrary: acc) (simp_all add: count_category_sum)

lemma distribution_distinct: "distinct (map fst (distribution smps))"
  by (simp add: distribution_def foldl_count_distinct)

lemma distribution_sum:
  "sum_list (map snd (distribution smps)) = length (processedSamples smps)"
  by (simp add: distribution_def foldl_count_sum processedSamples_def)

lemma UNIV_qualityCategory:
  "(UNIV :: qualityCategory set) = {excellent, good, moderate, poor, unsuitable}"
  by (auto intro: qualityCategory.exhaust)

lemma distribution_length: "length (distribution smps) \<le> 5"
proof -
  have "length (distribution smps) = card (set (map fst (distribution smps)))"
    using distinct_card[OF distribution_distinct[of smps]] by simp
  also have "\<dots> \<le> card (UNIV :: qualityCategory set)"
  proof (rule card_mono)
    show "finite (UNIV :: qualityCategory set)" by (simp add: UNIV_qualityCategory)
    show "set (map fst (distribution smps)) \<subseteq> UNIV" by (rule subset_UNIV)
  qed
  also have "\<dots> \<le> 5"
    by (simp add: UNIV_qualityCategory card_insert_if)
  finally show ?thesis .
qed

lemma toFixed1_error: "\<bar>toFixed1 x - x\<bar> \<le> 1 / 20"
proof -
  define y where "y = real_of_int \<lfloor>x * 10 + 1 / 2\<rfloor>"
  have "y \<le> x * 10 + 1 / 2" unfolding y_def by (rule of_int_floor_le)
  moreover have "x * 10 + 1 / 2 < y + 1" unfolding y_def by linarith
  moreover have "toFixed1 x = y / 10" by (simp add: toFixed1_def y_def)
  ultimately show ?thesis by linarith
qed

lemma rounded_sum_error:
  "\<bar>(\<Sum>(c, n)\<leftarrow>d. toFixed1 (f n)) - (\<Sum>(c, n)\<leftarrow>d. f n)\<bar> \<le> real (length d) / 20"
proof (induction d)
  case Nil
  then show ?case by simp
next
  case (Cons e es)
  obtain c n where e: "e = (c, n)" by (cases e)
  have l: "(\<Sum>(c, n)\<leftarrow>e # es. toFixed1 (f n))
             = toFixed1 (f n) + (\<Sum>(c, n)\<leftarrow>es. toFixed1 (f n))"
    by (simp add: e)
  have r: "(\<Sum>(c, n)\<leftarrow>e # es. f n) = f n + (\<Sum>(c, n)\<leftarrow>es. f n)"
    by (simp add: e)
  have n: "real (length (e # es)) / 20 = 1 / 20 + real (length es) / 20"
    by (simp add: add_divide_distrib)
  from Cons toFixed1_error[of "f n"] show ?case
    unfolding l r n by linarith
qed

lemma rounded_sum_tenths:
  "\<exists>K::int. (\<Sum>(c, n)\<leftarrow>d. toFixed1 (f n)) = of_int K / 10"
proof (induction d)
  case Nil
  show ?case by (rule exI[of _ 0]) simp
next
  case (Cons e es)
  obtain c n where e: "e = (c::'a, n::'b)" by (cases e)
  from Cons obtain K :: int where K: "(\<Sum>(c, n)\<leftarrow>es. toFixed1 (f n)) = of_int K / 10"
    by blast
  have l: "(\<Sum>(c, n)\<leftarrow>e # es. toFixed1 (f n))
             = toFixed1 (f n) + (\<Sum>(c, n)\<leftarrow>es. toFixed1 (f n))"
    by (simp add: e)
  show ?case
    unfolding l K
    by (rule exI[of _ "\<lfloor>f n * 10 + 1 / 2\<rfloor> + K"]) (simp add: toFixed1_def add_divide_distrib)
qed

lemma exact_sum:
  "(\<Sum>(c, n)\<leftarrow>d. real n / N * 100) = real (sum_list (map snd d)) / N * 100"
  by (induction d) (auto simp: add_divide_distrib distrib_right)

lemma percentage_sum:
  "sum_list (map percentage (qualityDistribution smps))
     = (\<Sum>(c, n)\<leftarrow>distribution smps.
          toFixed1 (real n / real (length (processedSamples smps)) * 100))"
  by (simp add: qualityDistribution_def comp_def case_prod_unfold)

lemma batch14_processed: "length (processedSamples batch14) = 14"
  by (simp add: processedSamples_def batch14_def result_sample_def)

lemma batch14_distribution:
  "distribution batch14 = [(excellent, 1), (good, 1), (moderate, 1), (poor, 1), (unsuitable, 10)]"
  by code_simp

lemma batch14_sum: "sum_list (map percentage (qualityDistribution batch14)) = 499 / 5"
  by (simp add: percentage_sum batch14_processed batch14_distribution toFixed1_def)

text \<open>
  C9, as it holds. For every batch with at least one sample carrying results, the
  percentages of \<open>qualityDistribution\<close>, each rounded to one decimal, add up to 100
  within 0.2.
\<close>

theorem percentage_sum_tolerance:
  "processedSamples smps \<noteq> [] \<Longrightarrow>
     \<bar>sum_list (map percentage (qualityDistribution smps)) - 100\<bar> \<le> 2 / 10"
proof -
  assume ne: "processedSamples smps \<noteq> []"
  define N where "N = real (length (processedSamples smps))"
  define S where "S = sum_list (map percentage (qualityDistribution smps))"
  have Npos: "0 < N" using ne by (simp add: N_def)
  have S: "S = (\<Sum>(c, n)\<leftarrow>distribution smps. toFixed1 (real n / N * 100))"
    by (simp add: S_def N_def percentage_sum)
  have exact: "(\<Sum>(c, n)\<leftarrow>distribution smps. real n / N * 100) = 100"
    unfolding exact_sum distribution_sum using Npos by (simp add: N_def)
  have "\<bar>S - 100\<bar> \<le> real (length (distribution smps)) / 20"
    using rounded_sum_error[where d = "distribution smps" and f = "\<lambda>n. real n / N * 100"]
    unfolding S exact by assumption
  also have "\<dots> \<le> 5 / 20"
    using distribution_length[of smps] by simp
  finally have bound: "\<bar>S - 100\<bar> \<le> 1 / 4" by simp
  from rounded_sum_tenths[where d = "distribution smps" and f = "\<lambda>n. real n / N * 100"]
  obtain K :: int where K: "S = of_int K / 10" by (auto simp: S)
  from bound have "\<bar>real_of_int (K - 1000)\<bar> \<le> 5 / 2"
    by (simp add: K abs_le_iff field_simps)
  then have "\<bar>K - 1000\<bar> \<le> 2" by linarith
  then have "\<bar>real_of_int (K - 1000)\<bar> \<le> 2" by linarith
  then have "\<bar>S - 100\<bar> \<le> 2 / 10"
    by (simp add: K abs_le_iff field_simps)
  then show ?thesis by (simp add: S_def)
qed

theorem percentage_sum_tolerance_witness:
  "processedSamples batch14 \<noteq> []
   \<and> \<bar>sum_list (map percentage (qualityDistribution batch14)) - 100\<bar> \<le> 2 / 10"
proof -
  have h: "processedSamples batch14 \<noteq> []"
    using batch14_processed by auto
  from h percentage_sum_tolerance[OF h] show ?thesis by (intro conjI)
qed

text \<open>
  C9 as stated fails: fourteen samples, one in each of four categories and ten in the
  fifth, get the percentages 7.1, 7.1, 7.1, 7.1 and 71.4, which add up to 99.8.
\<close>

theorem percentage_sum_counterexample:
  "processedSamples batch14 \<noteq> []
   \<and> sum_list (map percentage (qualityDistribution batch14)) = 499 / 5
   \<and> \<not> \<bar>sum_list (map percentage (qualityDistribution batch14)) - 100\<bar> \<le> 1 / 10"
proof -
  have h: "processedSamples batch14 \<noteq> []"
    using batch14_processed by auto
  then show ?thesis by (simp add: batch14_sum)
qed

end
